theory Spec2Isabelle
  imports Complex_Main
begin

section \<open>The random-walk grid demo: data model\<close>

text \<open>
  The component \<^verbatim>\<open>Grid\<close> of \<^verbatim>\<open>src/components/grid/index.tsx\<close> keeps its state in React
  hooks and changes it in event handlers and effects. Each handler and each effect is
  embedded as a function from the state it reads (the values of the render whose closure
  it is) to the state after its updates. Grid indices are \<^verbatim>\<open>bigint\<close> in the source and
  \<^typ>\<open>int\<close> here.
\<close>

record GridIndices =
  widthIntervalIndex :: int
  heightIntervalIndex :: int

datatype GridEntityType = GridWalkerEntity | GridPointEntity

record GridWalker =
  onGridAt :: GridIndices
  walkerColor :: string
  finishedWalk :: bool

datatype StepDir = Up | Down | Left | Right

record GridWalkerNextStep =
  nextStep :: GridIndices
  nextStepDir :: StepDir

text \<open>
  \<^verbatim>\<open>stepFinishedAnimatingAt\<close> is an optional property of the source's interface; the code
  tests its presence with \<^verbatim>\<open>"stepFinishedAnimatingAt" in stepTaken\<close>. \<^term>\<open>None\<close> is the
  absent property, \<^term>\<open>Some t\<close> the timestamp.
\<close>

record GridWalkerStepInfo =
  stepFrom :: GridIndices
  stepTo :: GridIndices
  stepDir :: StepDir
  lineColor :: string
  stepFinishedAnimatingAt :: "nat option"

datatype InstructionsState =
  NoExtantWalker | AtLeastOneExtantWalker | GridWalkerRemoval | Running | Paused

text \<open>The numeric value of the TypeScript enum, which the code compares with \<^verbatim>\<open>>=\<close>.\<close>

fun instructionsStateValue :: "InstructionsState \<Rightarrow> nat" where
  "instructionsStateValue NoExtantWalker = 0"
| "instructionsStateValue AtLeastOneExtantWalker = 1"
| "instructionsStateValue GridWalkerRemoval = 2"
| "instructionsStateValue Running = 3"
| "instructionsStateValue Paused = 4"

subsection \<open>Arithmetic helpers and the grid's constants\<close>

definition bigIntDivisionResult :: "int \<Rightarrow> int \<Rightarrow> int" where
  "bigIntDivisionResult numerator denominator = numerator div denominator"

definition bigIntSubtractionResult :: "int \<Rightarrow> int \<Rightarrow> int" where
  "bigIntSubtractionResult firstTerm secondTerm = firstTerm + (- secondTerm)"

definition bigIntAdditionResult :: "int \<Rightarrow> int \<Rightarrow> int" where
  "bigIntAdditionResult firstTerm secondTerm = firstTerm + secondTerm"

definition zeroBigNumber :: int where "zeroBigNumber = 0"
definition oneBigNumber :: int where "oneBigNumber = 1"

definition width :: int where "width = 1000"
definition widthInterval :: int where "widthInterval = 50"
definition numVerticalLines :: int where
  "numVerticalLines = bigIntDivisionResult width widthInterval"

definition height :: int where "height = 500"
definition heightInterval :: int where "heightInterval = 50"
definition numHorizontalLines :: int where
  "numHorizontalLines = bigIntDivisionResult height heightInterval"

subsection \<open>The line key\<close>

text \<open>
  \<^verbatim>\<open>constructLineFromToKey\<close> builds the template string
  \<^verbatim>\<open>`${fromW}_${fromH}_${toW}_${toH}`\<close>; a \<^verbatim>\<open>bigint\<close> prints in decimal, with a leading
  minus sign when negative.
\<close>

definition digitChar :: "nat \<Rightarrow> char" where
  "digitChar d = char_of (48 + d)"

fun natToString :: "nat \<Rightarrow> string" where
  "natToString n =
     (if n < 10 then [digitChar n] else natToString (n div 10) @ [digitChar (n mod 10)])"

declare natToString.simps [simp del]

definition bigIntToString :: "int \<Rightarrow> string" where
  "bigIntToString i =
     (if i < 0 then CHR ''-'' # natToString (nat (- i)) else natToString (nat i))"

definition constructLineFromToKey :: "GridIndices \<Rightarrow> GridIndices \<Rightarrow> string" where
  "constructLineFromToKey lineFrom lineTo =
     bigIntToString (widthIntervalIndex lineFrom) @ ''_'' @
     bigIntToString (heightIntervalIndex lineFrom) @ ''_'' @
     bigIntToString (widthIntervalIndex lineTo) @ ''_'' @
     bigIntToString (heightIntervalIndex lineTo)"

subsection \<open>Collections and queues\<close>

text \<open>
  Modelled from the spec: the packages \<^verbatim>\<open>vecollection\<close>, \<^verbatim>\<open>usevecollection\<close> and
  \<^verbatim>\<open>@uidotdev/usehooks\<close> are imported by the component and are not part of its
  sources. The walker registry and the step history are collections with value
  equality, kept here as lists in insertion order: \<^verbatim>\<open>add\<close> inserts with no uniqueness
  check, \<^verbatim>\<open>removeFirstFound\<close> removes the first element that satisfies the predicate
  and does nothing when none does, \<^verbatim>\<open>remove\<close> removes the first element equal by
  value, \<^verbatim>\<open>returnFirstOccurrenceIfFound\<close> returns the first match or nothing. A queue
  appends at its end and is emptied by \<^verbatim>\<open>clear\<close>. The updates a handler makes apply in
  the order it makes them.
\<close>

definition addToCollection :: "'a \<Rightarrow> 'a list \<Rightarrow> 'a list" where
  "addToCollection x xs = xs @ [x]"

fun removeFirstFoundFromCollection :: "('a \<Rightarrow> bool) \<Rightarrow> 'a list \<Rightarrow> 'a list" where
  "removeFirstFoundFromCollection p [] = []"
| "removeFirstFoundFromCollection p (x # xs) =
     (if p x then xs else x # removeFirstFoundFromCollection p xs)"

definition removeFromCollection :: "'a \<Rightarrow> 'a list \<Rightarrow> 'a list" where
  "removeFromCollection x xs = removeFirstFoundFromCollection (\<lambda>y. y = x) xs"

definition returnFirstOccurrenceIfFound :: "('a \<Rightarrow> bool) \<Rightarrow> 'a list \<Rightarrow> 'a option" where
  "returnFirstOccurrenceIfFound p xs = find p xs"

definition queueAdd :: "'a \<Rightarrow> 'a list \<Rightarrow> 'a list" where
  "queueAdd x q = q @ [x]"

subsection \<open>The component's state\<close>

text \<open>
  One field per hook of \<^verbatim>\<open>Grid\<close>. The last field, \<open>animationsInFlight\<close>, stands for the
  animation library: the steps for which the render effect has started a tween whose
  \<^verbatim>\<open>onComplete\<close> has not run yet. Nothing in the component cancels a tween.
\<close>

record Grid =
  instructionsState :: InstructionsState
  gridWalkers :: "GridWalker list"
  latestWalkerAdded :: "GridWalker option"
  gridStepsTakenSoFar :: "GridWalkerStepInfo list"
  walkersTakingNextStep :: "GridWalker list"
  walkersFinishingSteps :: "GridWalkerStepInfo list"
  gridEditFocus :: "GridIndices option"
  stepping :: bool
  animationsInFlight :: "GridWalkerStepInfo list"

definition initialGrid :: Grid where
  "initialGrid =
     \<lparr>instructionsState = NoExtantWalker, gridWalkers = [], latestWalkerAdded = None,
      gridStepsTakenSoFar = [], walkersTakingNextStep = [], walkersFinishingSteps = [],
      gridEditFocus = None, stepping = False, animationsInFlight = []\<rparr>"

section \<open>Choosing the next step\<close>

definition possibleSteps :: "GridIndices \<Rightarrow> GridWalkerNextStep list" where
  "possibleSteps g =
     (let possibleLeftStep =
            \<lparr>nextStep = \<lparr>widthIntervalIndex =
                            bigIntSubtractionResult (widthIntervalIndex g) oneBigNumber,
                          heightIntervalIndex = heightIntervalIndex g\<rparr>,
             nextStepDir = Left\<rparr>;
          possibleRightStep =
            \<lparr>nextStep = \<lparr>widthIntervalIndex =
                            bigIntAdditionResult (widthIntervalIndex g) oneBigNumber,
                          heightIntervalIndex = heightIntervalIndex g\<rparr>,
             nextStepDir = Right\<rparr>;
          possibleUpStep =
            \<lparr>nextStep = \<lparr>widthIntervalIndex = widthIntervalIndex g,
                          heightIntervalIndex =
                            bigIntSubtractionResult (heightIntervalIndex g) oneBigNumber\<rparr>,
             nextStepDir = Up\<rparr>;
          possibleDownStep =
            \<lparr>nextStep = \<lparr>widthIntervalIndex = widthIntervalIndex g,
                          heightIntervalIndex =
                            bigIntAdditionResult (heightIntervalIndex g) oneBigNumber\<rparr>,
             nextStepDir = Down\<rparr>
      in [possibleLeftStep, possibleRightStep, possibleUpStep, possibleDownStep])"

definition wouldBePreviousStep ::
  "GridWalkerStepInfo list \<Rightarrow> string \<Rightarrow> GridIndices \<Rightarrow> GridWalkerStepInfo option" where
  "wouldBePreviousStep stepsTaken stepperColor g =
     returnFirstOccurrenceIfFound
       (\<lambda>st. widthIntervalIndex g = widthIntervalIndex (stepFrom st) \<and>
             heightIntervalIndex g = heightIntervalIndex (stepFrom st) \<and>
             lineColor st = stepperColor)
       stepsTaken"

definition possibleNextSteps ::
  "GridWalkerStepInfo list \<Rightarrow> GridIndices \<Rightarrow> string \<Rightarrow> GridWalkerNextStep list" where
  "possibleNextSteps stepsTaken g stepperColor =
     filter
       (\<lambda>ns. wouldBePreviousStep stepsTaken stepperColor (nextStep ns) = None \<and>
             widthIntervalIndex (nextStep ns) \<ge> zeroBigNumber \<and>
             widthIntervalIndex (nextStep ns) < numVerticalLines \<and>
             heightIntervalIndex (nextStep ns) \<ge> zeroBigNumber \<and>
             heightIntervalIndex (nextStep ns) < numHorizontalLines)
       (possibleSteps g)"

text \<open>
  \<^verbatim>\<open>possibleNextSteps[Math.floor(Math.random() * possibleNextSteps.length)]\<close>: the value
  drawn by \<^verbatim>\<open>Math.random()\<close> is the argument \<open>random\<close>, a number of the interval from 0
  (included) to 1 (excluded). Reading a JavaScript array at an index it does not have
  gives \<^verbatim>\<open>undefined\<close>, which is the result \<^term>\<open>None\<close>; that is how the function answers
  when no candidate is left (index 0 of the empty array).
\<close>

definition arrayAt :: "'a list \<Rightarrow> int \<Rightarrow> 'a option" where
  "arrayAt xs i = (if 0 \<le> i \<and> i < int (length xs) then Some (xs ! nat i) else None)"

definition chooseNextStep ::
  "GridWalkerStepInfo list \<Rightarrow> GridIndices \<Rightarrow> string \<Rightarrow> real \<Rightarrow> GridWalkerNextStep option" where
  "chooseNextStep stepsTaken g stepperColor random =
     (let candidates = possibleNextSteps stepsTaken g stepperColor
      in arrayAt candidates \<lfloor>random * real (length candidates)\<rfloor>)"

definition walkerStep ::
  "GridWalkerStepInfo list \<Rightarrow> GridWalker \<Rightarrow> real \<Rightarrow> GridWalkerStepInfo option" where
  "walkerStep stepsTaken gridWalker random =
     (case chooseNextStep stepsTaken (onGridAt gridWalker) (walkerColor gridWalker) random of
        Some nextStepToTake \<Rightarrow>
          Some \<lparr>stepFrom = onGridAt gridWalker, stepTo = nextStep nextStepToTake,
                stepDir = nextStepDir nextStepToTake, lineColor = walkerColor gridWalker,
                stepFinishedAnimatingAt = None\<rparr>
      | None \<Rightarrow> None)"

section \<open>The grid points and the click handler\<close>

text \<open>
  \<^verbatim>\<open>mapToArrayNTimes n mapFn\<close> maps over the integers from 0 up to \<open>n - 1\<close>. The render
  effect builds one clickable shape per grid point, constrained by the shorter of the two
  interval arrays, whose lengths are the two line counts.
\<close>

definition mapToArrayNTimes :: "int \<Rightarrow> (int \<Rightarrow> 'a) \<Rightarrow> 'a list" where
  "mapToArrayNTimes n mapFn = map mapFn [zeroBigNumber..n - 1]"

definition constrainByWidth :: "int \<Rightarrow> GridIndices list" where
  "constrainByWidth widthIndex =
     mapToArrayNTimes numHorizontalLines
       (\<lambda>heightIndex. \<lparr>widthIntervalIndex = widthIndex, heightIntervalIndex = heightIndex\<rparr>)"

definition constrainByHeight :: "int \<Rightarrow> GridIndices list" where
  "constrainByHeight heightIndex =
     mapToArrayNTimes numVerticalLines
       (\<lambda>widthIndex. \<lparr>widthIntervalIndex = widthIndex, heightIntervalIndex = heightIndex\<rparr>)"

definition pointsArray :: "GridIndices list" where
  "pointsArray =
     (if numVerticalLines < numHorizontalLines
      then concat (mapToArrayNTimes numVerticalLines constrainByWidth)
      else concat (mapToArrayNTimes numHorizontalLines constrainByHeight))"

definition walkerAt :: "GridIndices \<Rightarrow> GridWalker \<Rightarrow> bool" where
  "walkerAt g w \<longleftrightarrow>
     widthIntervalIndex g = widthIntervalIndex (onGridAt w) \<and>
     heightIntervalIndex g = heightIntervalIndex (onGridAt w)"

text \<open>The entity type the render effect binds to the click handler of a point's shape.\<close>

definition pointEntityType :: "Grid \<Rightarrow> GridIndices \<Rightarrow> GridEntityType" where
  "pointEntityType s pointIndices =
     (case returnFirstOccurrenceIfFound (walkerAt pointIndices) (gridWalkers s) of
        Some maybeWalker \<Rightarrow> GridWalkerEntity
      | None \<Rightarrow> GridPointEntity)"

text \<open>
  \<open>newColor\<close> is the value of \<^verbatim>\<open>randomColor()\<close>. The handler reads \<^verbatim>\<open>gridWalkers.size()\<close>
  from its closure, that is the registry before the removal it has just requested.
\<close>

definition handleClickingOnPointShape ::
  "Grid \<Rightarrow> GridEntityType \<Rightarrow> GridIndices \<Rightarrow> string \<Rightarrow> Grid" where
  "handleClickingOnPointShape s shapeEntityType pointClickedOn newColor =
     (let canUpdateWalkerState =
            (instructionsState s = NoExtantWalker \<or>
             instructionsState s = AtLeastOneExtantWalker \<or>
             instructionsState s = GridWalkerRemoval)
      in if canUpdateWalkerState then
           (if shapeEntityType = GridWalkerEntity then
              (let clickIsAfterRemovalInstructions =
                     (instructionsStateValue (instructionsState s)
                        \<ge> instructionsStateValue GridWalkerRemoval)
               in if clickIsAfterRemovalInstructions then
                    (case gridEditFocus s of
                       Some editFocus \<Rightarrow>
                         (if widthIntervalIndex editFocus = widthIntervalIndex pointClickedOn \<and>
                             heightIntervalIndex editFocus = heightIntervalIndex pointClickedOn
                          then
                            s\<lparr>gridWalkers :=
                                 removeFirstFoundFromCollection (walkerAt pointClickedOn)
                                   (gridWalkers s),
                              gridEditFocus := None,
                              instructionsState :=
                                (if length (gridWalkers s) = 1 then NoExtantWalker
                                 else AtLeastOneExtantWalker)\<rparr>
                          else s)
                     | None \<Rightarrow> s)
                  else s\<lparr>instructionsState := GridWalkerRemoval,
                         gridEditFocus := Some pointClickedOn\<rparr>)
            else if shapeEntityType = GridPointEntity then
              s\<lparr>latestWalkerAdded :=
                   Some \<lparr>onGridAt = pointClickedOn, walkerColor = newColor,
                         finishedWalk = False\<rparr>,
                gridEditFocus := Some pointClickedOn\<rparr>
            else s)
         else s)"

definition clickOnPoint :: "Grid \<Rightarrow> GridIndices \<Rightarrow> string \<Rightarrow> Grid" where
  "clickOnPoint s pointIndices newColor =
     (if pointIndices \<in> set pointsArray
      then handleClickingOnPointShape s (pointEntityType s pointIndices) pointIndices newColor
      else s)"

section \<open>The key handler\<close>

text \<open>\<^verbatim>\<open>key.toLowerCase()\<close>, on the ASCII letters.\<close>

definition toLowerCaseChar :: "char \<Rightarrow> char" where
  "toLowerCaseChar c =
     (if 65 \<le> (of_char c :: nat) \<and> (of_char c :: nat) \<le> 90
      then char_of ((of_char c :: nat) + 32) else c)"

definition toLowerCase :: "string \<Rightarrow> string" where
  "toLowerCase str = map toLowerCaseChar str"

definition keyDownListener :: "Grid \<Rightarrow> string \<Rightarrow> Grid" where
  "keyDownListener s key =
     (let atLeastOneExtantWalker = (gridWalkers s \<noteq> []);
          k = toLowerCase key
      in if k = ''s'' then
           (if instructionsState s = AtLeastOneExtantWalker
            then s\<lparr>stepping := True,
                   walkersTakingNextStep :=
                     foldl (\<lambda>q gridWalker. queueAdd gridWalker q)
                       (walkersTakingNextStep s) (gridWalkers s),
                   instructionsState := Running\<rparr>
            else s)
         else if k = ''p'' then
           (if instructionsState s = Running
            then s\<lparr>stepping := False, instructionsState := Paused\<rparr>
            else s)
         else if k = ''r'' then
           (if instructionsState s = Paused
            then s\<lparr>stepping := True, instructionsState := Running\<rparr>
            else s)
         else if k = ''e'' then
           (if instructionsState s \<noteq> NoExtantWalker \<and>
               instructionsState s \<noteq> GridWalkerRemoval
            then s\<lparr>gridEditFocus := None,
                   gridWalkers := [],
                   gridStepsTakenSoFar := [],
                   walkersTakingNextStep := [],
                   walkersFinishingSteps := [],
                   instructionsState := NoExtantWalker\<rparr>
            else s)
         else if k = ''escape'' then
           (if instructionsState s = GridWalkerRemoval
            then s\<lparr>instructionsState :=
                     (if atLeastOneExtantWalker then AtLeastOneExtantWalker
                      else NoExtantWalker)\<rparr>
            else s)
         else s)"

section \<open>The render effect and the completion of an animation\<close>

definition walkerStillAtFrom :: "GridWalker list \<Rightarrow> GridWalkerStepInfo \<Rightarrow> GridWalker option" where
  "walkerStillAtFrom walkers stepAlreadyAnimated =
     returnFirstOccurrenceIfFound
       (\<lambda>w. widthIntervalIndex (stepFrom stepAlreadyAnimated) = widthIntervalIndex (onGridAt w) \<and>
            heightIntervalIndex (stepFrom stepAlreadyAnimated) = heightIntervalIndex (onGridAt w) \<and>
            lineColor stepAlreadyAnimated = walkerColor w)
       walkers"

text \<open>
  The effect that depends on the registry, the step history and the instructions state;
  the stage container it tests for is present once the component is mounted. Of its
  body the model keeps what changes the state: for every step without a
  completion timestamp a tween is started when \<open>stepping\<close> holds, and every completed
  step whose walker is still at its start is queued as finishing, again only when
  \<open>stepping\<close> holds.
\<close>

definition renderEffect :: "Grid \<Rightarrow> Grid" where
  "renderEffect s =
     (let stepsToAnimate =
            filter (\<lambda>stepTaken. stepFinishedAnimatingAt stepTaken = None)
              (gridStepsTakenSoFar s);
          stepsFinishedAnimating =
            filter (\<lambda>stepTaken. stepFinishedAnimatingAt stepTaken \<noteq> None)
              (gridStepsTakenSoFar s)
      in s\<lparr>animationsInFlight :=
             animationsInFlight s @ (if stepping s then stepsToAnimate else []),
           walkersFinishingSteps :=
             foldl (\<lambda>q stepAlreadyAnimated.
                      if walkerStillAtFrom (gridWalkers s) stepAlreadyAnimated \<noteq> None \<and>
                         stepping s
                      then queueAdd stepAlreadyAnimated q else q)
               (walkersFinishingSteps s) stepsFinishedAnimating\<rparr>)"

text \<open>
  The \<^verbatim>\<open>onComplete\<close> callback of the tween of \<open>stepToAnimate\<close>; \<open>now\<close> is the value of
  \<^verbatim>\<open>Date.now()\<close>.
\<close>

definition onComplete :: "Grid \<Rightarrow> GridWalkerStepInfo \<Rightarrow> nat \<Rightarrow> Grid" where
  "onComplete s stepToAnimate now =
     (let walkerStepAfterAnimation = stepToAnimate\<lparr>stepFinishedAnimatingAt := Some now\<rparr>;
          stepFromToKey = constructLineFromToKey (stepFrom stepToAnimate) (stepTo stepToAnimate);
          stepToFromKey = constructLineFromToKey (stepTo stepToAnimate) (stepFrom stepToAnimate);
          steps1 = removeFromCollection stepToAnimate (gridStepsTakenSoFar s);
          steps2 = removeFirstFoundFromCollection
                     (\<lambda>st. constructLineFromToKey (stepFrom st) (stepTo st) = stepFromToKey)
                     steps1;
          steps3 = removeFirstFoundFromCollection
                     (\<lambda>st. constructLineFromToKey (stepTo st) (stepFrom st) = stepToFromKey)
                     steps2
      in s\<lparr>gridStepsTakenSoFar := addToCollection walkerStepAfterAnimation steps3\<rparr>)"

section \<open>The three queue effects\<close>

definition latestWalkerAddedEffect :: "Grid \<Rightarrow> Grid" where
  "latestWalkerAddedEffect s =
     (case latestWalkerAdded s of
        Some latest \<Rightarrow>
          s\<lparr>gridWalkers :=
              addToCollection latest
                (removeFirstFoundFromCollection (walkerAt (onGridAt latest)) (gridWalkers s)),
            latestWalkerAdded := None,
            instructionsState :=
              (if instructionsState s = NoExtantWalker then AtLeastOneExtantWalker
               else instructionsState s)\<rparr>
      | None \<Rightarrow> s)"

text \<open>
  The loop over the queue of walkers taking their next step. \<^verbatim>\<open>walkerStep\<close> reads the
  step history of the effect's closure, \<open>stepsTaken\<close>, for every walker of the queue;
  \<open>random i\<close> is the value \<^verbatim>\<open>Math.random()\<close> returns for the walker at position \<open>i\<close>.
\<close>

fun takeNextSteps ::
  "GridWalkerStepInfo list \<Rightarrow> (nat \<Rightarrow> real) \<Rightarrow> nat \<Rightarrow> GridWalker list \<Rightarrow> Grid \<Rightarrow> Grid" where
  "takeNextSteps stepsTaken random i [] s = s"
| "takeNextSteps stepsTaken random i (walkerToUpdate # rest) s =
     takeNextSteps stepsTaken random (Suc i) rest
       (case walkerStep stepsTaken walkerToUpdate (random i) of
          Some walkerNextStep \<Rightarrow>
            s\<lparr>gridStepsTakenSoFar := addToCollection walkerNextStep (gridStepsTakenSoFar s)\<rparr>
        | None \<Rightarrow>
            s\<lparr>gridWalkers :=
                addToCollection (walkerToUpdate\<lparr>finishedWalk := True\<rparr>)
                  (removeFromCollection walkerToUpdate (gridWalkers s))\<rparr>)"

definition walkersTakingNextStepEffect :: "Grid \<Rightarrow> (nat \<Rightarrow> real) \<Rightarrow> Grid" where
  "walkersTakingNextStepEffect s random =
     (if length (walkersTakingNextStep s) > 0
      then (takeNextSteps (gridStepsTakenSoFar s) random 0 (walkersTakingNextStep s) s)
             \<lparr>walkersTakingNextStep := []\<rparr>
      else s)"

fun finishSteps :: "GridWalkerStepInfo list \<Rightarrow> Grid \<Rightarrow> Grid" where
  "finishSteps [] s = s"
| "finishSteps (walkerFinishingStep # rest) s =
     (let walkerAfterAnimation =
            \<lparr>onGridAt = stepTo walkerFinishingStep,
             walkerColor = lineColor walkerFinishingStep, finishedWalk = False\<rparr>
      in finishSteps rest
           (s\<lparr>gridWalkers :=
                addToCollection walkerAfterAnimation
                  (removeFromCollection
                     \<lparr>onGridAt = stepFrom walkerFinishingStep,
                      walkerColor = lineColor walkerFinishingStep, finishedWalk = False\<rparr>
                     (gridWalkers s)),
              walkersTakingNextStep := queueAdd walkerAfterAnimation (walkersTakingNextStep s)\<rparr>))"

definition walkersFinishingStepsEffect :: "Grid \<Rightarrow> Grid" where
  "walkersFinishingStepsEffect s =
     (if length (walkersFinishingSteps s) > 0
      then (finishSteps (walkersFinishingSteps s) s)\<lparr>walkersFinishingSteps := []\<rparr>
      else s)"

section \<open>Events\<close>

text \<open>
  Everything that changes the state is one of these events: a click on the shape of a
  grid point, a key press, a run of one of the four effects, and the completion of a
  tween in flight. The values the code takes from outside come with the event: the colour
  \<^verbatim>\<open>randomColor()\<close> returns, the draws of \<^verbatim>\<open>Math.random()\<close>, the time \<^verbatim>\<open>Date.now()\<close>
  returns.

  Modelled from the spec: the animation library \<^verbatim>\<open>gsap\<close> is not part of the sources. It
  reports one completion for every tween that was started, so a completion is delivered
  only for a step in \<open>animationsInFlight\<close> and takes one occurrence of it away.

  The events may come in any order. React runs the effects whose dependencies changed
  right after the handler that changed them; the orders React allows are among the
  orders considered here.
\<close>

datatype Event =
  ClickOnPoint GridIndices string
| KeyDown string
| RenderEffect
| LatestWalkerAddedEffect
| WalkersTakingNextStepEffect "nat \<Rightarrow> real"
| WalkersFinishingStepsEffect
| AnimationComplete GridWalkerStepInfo nat

fun fire :: "Event \<Rightarrow> Grid \<Rightarrow> Grid" where
  "fire (ClickOnPoint pointIndices newColor) s = clickOnPoint s pointIndices newColor"
| "fire (KeyDown key) s = keyDownListener s key"
| "fire RenderEffect s = renderEffect s"
| "fire LatestWalkerAddedEffect s = latestWalkerAddedEffect s"
| "fire (WalkersTakingNextStepEffect random) s = walkersTakingNextStepEffect s random"
| "fire WalkersFinishingStepsEffect s = walkersFinishingStepsEffect s"
| "fire (AnimationComplete stepToAnimate now) s =
     (if stepToAnimate \<in> set (animationsInFlight s)
      then onComplete
             (s\<lparr>animationsInFlight := remove1 stepToAnimate (animationsInFlight s)\<rparr>)
             stepToAnimate now
      else s)"

definition run :: "Event list \<Rightarrow> Grid \<Rightarrow> Grid" where
  "run events s = fold fire events s"

section \<open>The properties stated by the specification\<close>

definition axisAdjacent :: "GridIndices \<Rightarrow> GridIndices \<Rightarrow> bool" where
  "axisAdjacent g c \<longleftrightarrow>
     (widthIntervalIndex c = widthIntervalIndex g - 1 \<and>
        heightIntervalIndex c = heightIntervalIndex g) \<or>
     (widthIntervalIndex c = widthIntervalIndex g + 1 \<and>
        heightIntervalIndex c = heightIntervalIndex g) \<or>
     (widthIntervalIndex c = widthIntervalIndex g \<and>
        heightIntervalIndex c = heightIntervalIndex g - 1) \<or>
     (widthIntervalIndex c = widthIntervalIndex g \<and>
        heightIntervalIndex c = heightIntervalIndex g + 1)"

definition insideGrid :: "GridIndices \<Rightarrow> bool" where
  "insideGrid c \<longleftrightarrow>
     0 \<le> widthIntervalIndex c \<and> widthIntervalIndex c < numVerticalLines \<and>
     0 \<le> heightIntervalIndex c \<and> heightIntervalIndex c < numHorizontalLines"

definition stepRecordExists :: "GridWalkerStepInfo list \<Rightarrow> GridIndices \<Rightarrow> string \<Rightarrow> bool" where
  "stepRecordExists stepsTaken c color \<longleftrightarrow>
     (\<exists>st \<in> set stepsTaken. stepFrom st = c \<and> lineColor st = color)"

text \<open>The legal candidates of the specification's step selector, in its words.\<close>

definition legalCandidate ::
  "GridWalkerStepInfo list \<Rightarrow> GridIndices \<Rightarrow> string \<Rightarrow> GridIndices \<Rightarrow> bool" where
  "legalCandidate stepsTaken g color c \<longleftrightarrow>
     axisAdjacent g c \<and> insideGrid c \<and> \<not> stepRecordExists stepsTaken c color"

subsection \<open>The stepping flag and the instructions state\<close>

definition steppingMatchesState :: "Grid \<Rightarrow> bool" where
  "steppingMatchesState s \<longleftrightarrow>
     (instructionsState s = Running \<longrightarrow> stepping s) \<and>
     (instructionsState s = Paused \<longrightarrow> \<not> stepping s)"

subsection \<open>Consistent step records\<close>

text \<open>The direction of a step record determines its end from its start.\<close>

definition stepConsistent :: "GridWalkerStepInfo \<Rightarrow> bool" where
  "stepConsistent st \<longleftrightarrow>
     (case stepDir st of
        Right \<Rightarrow> widthIntervalIndex (stepTo st) = widthIntervalIndex (stepFrom st) + 1 \<and>
                 heightIntervalIndex (stepTo st) = heightIntervalIndex (stepFrom st)
      | Left \<Rightarrow> widthIntervalIndex (stepTo st) = widthIntervalIndex (stepFrom st) - 1 \<and>
                heightIntervalIndex (stepTo st) = heightIntervalIndex (stepFrom st)
      | Up \<Rightarrow> heightIntervalIndex (stepTo st) = heightIntervalIndex (stepFrom st) - 1 \<and>
              widthIntervalIndex (stepTo st) = widthIntervalIndex (stepFrom st)
      | Down \<Rightarrow> heightIntervalIndex (stepTo st) = heightIntervalIndex (stepFrom st) + 1 \<and>
                widthIntervalIndex (stepTo st) = widthIntervalIndex (stepFrom st))"

definition recordsConsistent :: "Grid \<Rightarrow> bool" where
  "recordsConsistent s \<longleftrightarrow>
     (\<forall>st \<in> set (gridStepsTakenSoFar s) \<union> set (walkersFinishingSteps s) \<union>
            set (animationsInFlight s). stepConsistent st)"

subsection \<open>Occupancy\<close>

definition atMostOneWalkerPerCell :: "Grid \<Rightarrow> bool" where
  "atMostOneWalkerPerCell s \<longleftrightarrow> distinct (map onGridAt (gridWalkers s))"

fun isStartKey :: "Event \<Rightarrow> bool" where
  "isStartKey (KeyDown key) = (toLowerCase key = ''s'')"
| "isStartKey e = False"

definition editingBeforeStart :: "Grid \<Rightarrow> bool" where
  "editingBeforeStart s \<longleftrightarrow>
     (instructionsState s = NoExtantWalker \<or> instructionsState s = AtLeastOneExtantWalker \<or>
      instructionsState s = GridWalkerRemoval) \<and>
     \<not> stepping s \<and> gridStepsTakenSoFar s = [] \<and> walkersTakingNextStep s = [] \<and>
     walkersFinishingSteps s = [] \<and> animationsInFlight s = [] \<and>
     atMostOneWalkerPerCell s"

section \<open>Sample sessions\<close>

text \<open>
  Sessions of the demo as lists of events, in the order React delivers them: after a
  handler has run, the effects whose dependencies changed run, the render effect first.
  Every draw of \<^verbatim>\<open>Math.random()\<close> is 0, so a walker takes the first of its candidates.
\<close>

definition cell :: "int \<Rightarrow> int \<Rightarrow> GridIndices" where
  "cell w h = \<lparr>widthIntervalIndex = w, heightIntervalIndex = h\<rparr>"

definition pendingStep ::
  "GridIndices \<Rightarrow> GridIndices \<Rightarrow> StepDir \<Rightarrow> string \<Rightarrow> GridWalkerStepInfo" where
  "pendingStep a b d c =
     \<lparr>stepFrom = a, stepTo = b, stepDir = d, lineColor = c, stepFinishedAnimatingAt = None\<rparr>"

text \<open>Two walkers, placed at (0,0) and (2,0).\<close>

definition twoWalkersPlaced :: "Event list" where
  "twoWalkersPlaced =
     [ClickOnPoint (cell 0 0) ''#aa0000'', LatestWalkerAddedEffect, RenderEffect,
      ClickOnPoint (cell 2 0) ''#0000bb'', LatestWalkerAddedEffect, RenderEffect]"

text \<open>
  The walk is started: the first walker steps right and the second left, both towards
  (1,0), and both tweens are in flight.
\<close>

definition walkStarted :: "Event list" where
  "walkStarted = twoWalkersPlaced @
     [KeyDown ''s'', RenderEffect, WalkersTakingNextStepEffect (\<lambda>i. 0), RenderEffect]"

text \<open>A click on the walker at (2,0): its removal is pending.\<close>

definition removalPending :: "Event list" where
  "removalPending = twoWalkersPlaced @ [ClickOnPoint (cell 2 0) ''#00cc00'', RenderEffect]"

definition completedStep ::
  "GridIndices \<Rightarrow> GridIndices \<Rightarrow> StepDir \<Rightarrow> string \<Rightarrow> nat \<Rightarrow> GridWalkerStepInfo" where
  "completedStep a b d c t =
     \<lparr>stepFrom = a, stepTo = b, stepDir = d, lineColor = c, stepFinishedAnimatingAt = Some t\<rparr>"

definition walkerOn :: "GridIndices \<Rightarrow> string \<Rightarrow> GridWalker" where
  "walkerOn g c = \<lparr>onGridAt = g, walkerColor = c, finishedWalk = False\<rparr>"

text \<open>
  Two walkers on the neighbouring points (1,0) and (0,0) that swap places; the tween of
  the first has completed, the tween of the second is still in flight.
\<close>

definition walkersSwapping :: "Event list" where
  "walkersSwapping =
     [ClickOnPoint (cell 1 0) ''#aa0000'', LatestWalkerAddedEffect, RenderEffect,
      ClickOnPoint (cell 0 0) ''#0000bb'', LatestWalkerAddedEffect, RenderEffect,
      KeyDown ''s'', RenderEffect, WalkersTakingNextStepEffect (\<lambda>i. 0), RenderEffect,
      AnimationComplete (pendingStep (cell 1 0) (cell 0 0) Left ''#aa0000'') 1000]"



text \<open>The walk of the two walkers is reset while both tweens are in flight.\<close>

definition resetWhileAnimating :: "Event list" where
  "resetWhileAnimating = walkStarted @ [KeyDown ''e'', RenderEffect]"

text \<open>Both tweens of the started walk complete, and both walkers finish their step.\<close>

definition firstStepsFinished :: "Event list" where
  "firstStepsFinished = walkStarted @
     [AnimationComplete (pendingStep (cell 0 0) (cell 1 0) Right ''#aa0000'') 1000,
      AnimationComplete (pendingStep (cell 2 0) (cell 1 0) Left ''#0000bb'') 1000,
      RenderEffect, WalkersFinishingStepsEffect]"

subsection \<open>A finished walker at rest\<close>







subsection \<open>Colours in use\<close>

text \<open>
  \<^verbatim>\<open>randomColor()\<close> gives a walker its identity. A click is taken to bring a colour that
  is not in use: the colour of no walker of the registry or of the queue, and of no step
  of the history, of the queue of finishing steps or of a tween in flight.
\<close>

definition walkerColors :: "GridWalker list \<Rightarrow> string set" where
  "walkerColors ws = walkerColor ` set ws"

definition stepColors :: "GridWalkerStepInfo list \<Rightarrow> string set" where
  "stepColors sts = lineColor ` set sts"








subsection \<open>Resuming after a completion\<close>





section \<open>The step selector\<close>

lemma numLines: "numVerticalLines = 20" "numHorizontalLines = 10"
  by (simp_all add: numVerticalLines_def numHorizontalLines_def bigIntDivisionResult_def
      width_def widthInterval_def height_def heightInterval_def)

lemma wouldBePreviousStep_None:
  "wouldBePreviousStep stepsTaken color c = None \<longleftrightarrow> \<not> stepRecordExists stepsTaken c color"
  by (auto simp: wouldBePreviousStep_def returnFirstOccurrenceIfFound_def stepRecordExists_def
      find_None_iff)

lemma set_possibleSteps:
  "nextStep ` set (possibleSteps g) = {c. axisAdjacent g c}"
  by (auto simp: possibleSteps_def axisAdjacent_def bigIntSubtractionResult_def
      bigIntAdditionResult_def oneBigNumber_def Let_def image_iff)

lemma set_possibleNextSteps:
  "nextStep ` set (possibleNextSteps stepsTaken g color) =
     {c. legalCandidate stepsTaken g color c}"
  using set_possibleSteps [of g]
  by (auto simp: possibleNextSteps_def legalCandidate_def insideGrid_def
      wouldBePreviousStep_None zeroBigNumber_def image_iff)

lemma arrayAt_random:
  assumes "0 \<le> random" "random < 1"
  shows "(arrayAt xs \<lfloor>random * real (length xs)\<rfloor> = None \<longleftrightarrow> xs = [])"
    and "arrayAt xs \<lfloor>random * real (length xs)\<rfloor> = Some x \<Longrightarrow> x \<in> set xs"
proof -
  let ?i = "\<lfloor>random * real (length xs)\<rfloor>"
  have lo: "0 \<le> ?i" using assms by simp
  have hi: "?i < int (length xs)" if "xs \<noteq> []"
  proof -
    have "random * real (length xs) < real (length xs)" using assms that by simp
    then show ?thesis by (simp add: floor_less_iff)
  qed
  show "(arrayAt xs ?i = None \<longleftrightarrow> xs = [])"
    using lo hi by (auto simp: arrayAt_def)
  show "arrayAt xs ?i = Some x \<Longrightarrow> x \<in> set xs"
  proof -
    assume a: "arrayAt xs ?i = Some x"
    then have b: "0 \<le> ?i" "?i < int (length xs)" "x = xs ! nat ?i"
      by (auto simp: arrayAt_def split: if_splits)
    then have "nat ?i < length xs" by linarith
    with b(3) show ?thesis by simp
  qed
qed

text \<open>
  Claim C1. For every cell, colour and step history, and every value \<^verbatim>\<open>Math.random()\<close>
  can return, \<open>chooseNextStep\<close> returns nothing exactly when no cell is a legal
  candidate; otherwise the cell it returns is a legal candidate: one of the four
  axis-adjacent cells, inside the grid, and not the start of any recorded step of the
  walker's colour.
\<close>

theorem chooseNextStep_legal:
  assumes "0 \<le> random" "random < 1"
  shows "(chooseNextStep stepsTaken g color random = None \<longleftrightarrow>
            \<not> (\<exists>c. legalCandidate stepsTaken g color c)) \<and>
         (\<forall>ns. chooseNextStep stepsTaken g color random = Some ns \<longrightarrow>
            legalCandidate stepsTaken g color (nextStep ns))"
proof -
  let ?cs = "possibleNextSteps stepsTaken g color"
  have "(?cs = []) \<longleftrightarrow> \<not> (\<exists>c. legalCandidate stepsTaken g color c)"
    using set_possibleNextSteps [of stepsTaken g color] by auto
  moreover have "legalCandidate stepsTaken g color (nextStep ns)" if "ns \<in> set ?cs" for ns
    using set_possibleNextSteps [of stepsTaken g color] that by auto
  ultimately show ?thesis
    using arrayAt_random [OF assms, of ?cs]
    by (auto simp: chooseNextStep_def Let_def)
qed

theorem chooseNextStep_legal_witness:
  "chooseNextStep [] \<lparr>widthIntervalIndex = 0, heightIntervalIndex = 0\<rparr> ''#ff0000'' (1 / 2)
     = Some \<lparr>nextStep = \<lparr>widthIntervalIndex = 0, heightIntervalIndex = 1\<rparr>,
             nextStepDir = Down\<rparr> \<and>
   legalCandidate [] \<lparr>widthIntervalIndex = 0, heightIntervalIndex = 0\<rparr> ''#ff0000''
     \<lparr>widthIntervalIndex = 0, heightIntervalIndex = 1\<rparr>"
proof -
  have e: "chooseNextStep [] \<lparr>widthIntervalIndex = 0, heightIntervalIndex = 0\<rparr> ''#ff0000'' (1 / 2)
     = Some \<lparr>nextStep = \<lparr>widthIntervalIndex = 0, heightIntervalIndex = 1\<rparr>,
             nextStepDir = Down\<rparr>"
    by code_simp
  have r: "(0::real) \<le> 1 / 2" "(1::real) / 2 < 1" by simp_all
  from chooseNextStep_legal [OF r, of "[]" "\<lparr>widthIntervalIndex = 0, heightIntervalIndex = 0\<rparr>"
      "''#ff0000''"] e
  show ?thesis by simp
qed

section \<open>What the handlers and effects leave unchanged\<close>

lemma takeNextSteps_frame [simp]:
  "instructionsState (takeNextSteps h r i ws s) = instructionsState s"
  "stepping (takeNextSteps h r i ws s) = stepping s"
  "latestWalkerAdded (takeNextSteps h r i ws s) = latestWalkerAdded s"
  "walkersTakingNextStep (takeNextSteps h r i ws s) = walkersTakingNextStep s"
  "walkersFinishingSteps (takeNextSteps h r i ws s) = walkersFinishingSteps s"
  "gridEditFocus (takeNextSteps h r i ws s) = gridEditFocus s"
  "animationsInFlight (takeNextSteps h r i ws s) = animationsInFlight s"
  by (induction ws arbitrary: s i; simp split: option.split)+

lemma finishSteps_frame [simp]:
  "instructionsState (finishSteps q s) = instructionsState s"
  "stepping (finishSteps q s) = stepping s"
  "latestWalkerAdded (finishSteps q s) = latestWalkerAdded s"
  "gridStepsTakenSoFar (finishSteps q s) = gridStepsTakenSoFar s"
  "walkersFinishingSteps (finishSteps q s) = walkersFinishingSteps s"
  "gridEditFocus (finishSteps q s) = gridEditFocus s"
  "animationsInFlight (finishSteps q s) = animationsInFlight s"
  by (induction q arbitrary: s; simp add: Let_def)+

lemma toLowerCase_literals [simp]:
  "toLowerCase ''e'' = ''e''" "toLowerCase ''E'' = ''e''"
  "toLowerCase ''s'' = ''s''" "toLowerCase ''p'' = ''p''" "toLowerCase ''r'' = ''r''"
  "toLowerCase ''Escape'' = ''escape''"
  by code_simp+

section \<open>The stepping flag follows the instructions state\<close>

lemma fire_steppingMatchesState:
  "steppingMatchesState s \<Longrightarrow> steppingMatchesState (fire e s)"
  by (cases e)
     (auto simp: steppingMatchesState_def clickOnPoint_def handleClickingOnPointShape_def
       keyDownListener_def renderEffect_def latestWalkerAddedEffect_def
       walkersTakingNextStepEffect_def walkersFinishingStepsEffect_def onComplete_def Let_def
       split: option.splits if_splits)

lemma run_steppingMatchesState:
  "steppingMatchesState s \<Longrightarrow> steppingMatchesState (run es s)"
  unfolding run_def by (induction es arbitrary: s) (simp_all add: fire_steppingMatchesState)

lemma reachable_steppingMatchesState: "steppingMatchesState (run es initialGrid)"
  by (rule run_steppingMatchesState) (simp add: steppingMatchesState_def initialGrid_def)

section \<open>The reset key\<close>

text \<open>
  Claim C7. The reset key (\<^verbatim>\<open>e\<close> or \<^verbatim>\<open>E\<close>), pressed in any state but \<open>NoExtantWalker\<close> and
  \<open>GridWalkerRemoval\<close>, empties the walker registry, the step history and both queues
  and moves the instructions state to \<open>NoExtantWalker\<close>. In \<open>NoExtantWalker\<close> it is
  ignored, so pressing it twice there leaves the whole state as it was; in every state a
  second reset changes nothing more.
\<close>

theorem reset_clears_everything:
  assumes "toLowerCase key = ''e''"
  shows "(instructionsState s \<noteq> NoExtantWalker \<and> instructionsState s \<noteq> GridWalkerRemoval \<longrightarrow>
            gridWalkers (keyDownListener s key) = [] \<and>
            gridStepsTakenSoFar (keyDownListener s key) = [] \<and>
            walkersTakingNextStep (keyDownListener s key) = [] \<and>
            walkersFinishingSteps (keyDownListener s key) = [] \<and>
            instructionsState (keyDownListener s key) = NoExtantWalker) \<and>
         (instructionsState s = NoExtantWalker \<longrightarrow>
            keyDownListener s key = s \<and>
            keyDownListener (keyDownListener s key) key = s) \<and>
         keyDownListener (keyDownListener s key) key = keyDownListener s key"
  using assms by (simp add: keyDownListener_def Let_def)

theorem reset_clears_everything_witness:
  "gridWalkers (run walkStarted initialGrid) \<noteq> [] \<and>
   gridStepsTakenSoFar (run walkStarted initialGrid) \<noteq> [] \<and>
   instructionsState (run walkStarted initialGrid) = Running \<and>
   gridWalkers (keyDownListener (run walkStarted initialGrid) ''E'') = [] \<and>
   gridStepsTakenSoFar (keyDownListener (run walkStarted initialGrid) ''E'') = [] \<and>
   walkersTakingNextStep (keyDownListener (run walkStarted initialGrid) ''E'') = [] \<and>
   walkersFinishingSteps (keyDownListener (run walkStarted initialGrid) ''E'') = [] \<and>
   instructionsState (keyDownListener (run walkStarted initialGrid) ''E'') = NoExtantWalker \<and>
   instructionsState initialGrid = NoExtantWalker \<and>
   keyDownListener (keyDownListener initialGrid ''e'') ''e'' = initialGrid"
proof -
  have a: "gridWalkers (run walkStarted initialGrid) \<noteq> []"
    "gridStepsTakenSoFar (run walkStarted initialGrid) \<noteq> []"
    "instructionsState (run walkStarted initialGrid) = Running"
    "instructionsState initialGrid = NoExtantWalker"
    by code_simp+
  have k: "toLowerCase ''E'' = ''e''" "toLowerCase ''e'' = ''e''" by simp_all
  from a reset_clears_everything [OF k(1), of "run walkStarted initialGrid"]
    reset_clears_everything [OF k(2), of initialGrid]
  show ?thesis by simp
qed

text \<open>
  Claim C10. The reset key leaves the stepping flag as it is. Pressed while \<open>Running\<close>,
  in a state the demo can reach, it moves the instructions state to \<open>NoExtantWalker\<close>
  with the flag still set; and the only event that ever clears a set flag is the pause
  key in state \<open>Running\<close>.
\<close>

theorem reset_keeps_stepping:
  "(toLowerCase key = ''e'' \<longrightarrow> stepping (keyDownListener s key) = stepping s) \<and>
   (toLowerCase key = ''e'' \<and> instructionsState (run es initialGrid) = Running \<longrightarrow>
      instructionsState (keyDownListener (run es initialGrid) key) = NoExtantWalker \<and>
      stepping (keyDownListener (run es initialGrid) key)) \<and>
   (stepping s \<and> \<not> stepping (fire e s) \<longrightarrow>
      (\<exists>k. e = KeyDown k \<and> toLowerCase k = ''p'' \<and> instructionsState s = Running))"
proof (intro conjI impI)
  assume "toLowerCase key = ''e''"
  then show "stepping (keyDownListener s key) = stepping s"
    by (simp add: keyDownListener_def Let_def)
next
  assume a: "toLowerCase key = ''e'' \<and> instructionsState (run es initialGrid) = Running"
  with reachable_steppingMatchesState [of es] have "stepping (run es initialGrid)"
    by (simp add: steppingMatchesState_def)
  with a show "instructionsState (keyDownListener (run es initialGrid) key) = NoExtantWalker"
    and "stepping (keyDownListener (run es initialGrid) key)"
    by (simp_all add: keyDownListener_def Let_def)
next
  assume "stepping s \<and> \<not> stepping (fire e s)"
  then show "\<exists>k. e = KeyDown k \<and> toLowerCase k = ''p'' \<and> instructionsState s = Running"
    by (cases e)
       (auto simp: clickOnPoint_def handleClickingOnPointShape_def
         keyDownListener_def renderEffect_def latestWalkerAddedEffect_def
         walkersTakingNextStepEffect_def walkersFinishingStepsEffect_def onComplete_def Let_def
         split: option.splits if_splits)
qed

theorem reset_keeps_stepping_witness:
  "instructionsState (run walkStarted initialGrid) = Running \<and>
   instructionsState (keyDownListener (run walkStarted initialGrid) ''E'') = NoExtantWalker \<and>
   stepping (keyDownListener (run walkStarted initialGrid) ''E'') \<and>
   stepping (run walkStarted initialGrid) \<and>
   \<not> stepping (fire (KeyDown ''p'') (run walkStarted initialGrid))"
proof -
  have a: "instructionsState (run walkStarted initialGrid) = Running"
    "stepping (run walkStarted initialGrid)"
    "\<not> stepping (fire (KeyDown ''p'') (run walkStarted initialGrid))"
    by code_simp+
  from a reset_keeps_stepping [of "''E''" "run walkStarted initialGrid" walkStarted "KeyDown ''p''"]
  show ?thesis by simp
qed

section \<open>A click on a free point while a removal is pending\<close>

lemma walkerAt_iff: "walkerAt g w \<longleftrightarrow> onGridAt w = g"
  by (auto simp: walkerAt_def intro: GridIndices.equality)

lemma removeFirstFound_none:
  "\<forall>x\<in>set xs. \<not> p x \<Longrightarrow> removeFirstFoundFromCollection p xs = xs"
  by (induction xs) auto

text \<open>
  Claim C9. In state \<open>GridWalkerRemoval\<close>, a click on a grid point that no walker
  occupies, followed by the effect on the walker just added, appends a new walker at that
  point to the registry and moves the edit focus to the point; the instructions state is
  \<open>GridWalkerRemoval\<close> after the click and after the effect.
\<close>

theorem click_on_empty_point_while_removal_pending:
  assumes "instructionsState s = GridWalkerRemoval"
    and "p \<in> set pointsArray"
    and "\<not> (\<exists>w \<in> set (gridWalkers s). onGridAt w = p)"
  shows "gridWalkers (latestWalkerAddedEffect (clickOnPoint s p newColor)) =
           gridWalkers s @ [\<lparr>onGridAt = p, walkerColor = newColor, finishedWalk = False\<rparr>] \<and>
         gridEditFocus (latestWalkerAddedEffect (clickOnPoint s p newColor)) = Some p \<and>
         instructionsState (clickOnPoint s p newColor) = GridWalkerRemoval \<and>
         instructionsState (latestWalkerAddedEffect (clickOnPoint s p newColor)) =
           GridWalkerRemoval"
proof -
  have none: "returnFirstOccurrenceIfFound (walkerAt p) (gridWalkers s) = None"
    using assms(3) by (auto simp: returnFirstOccurrenceIfFound_def find_None_iff walkerAt_iff)
  have rm: "removeFirstFoundFromCollection (walkerAt p) (gridWalkers s) = gridWalkers s"
    using assms(3) by (intro removeFirstFound_none) (auto simp: walkerAt_iff)
  show ?thesis
    using assms(1,2) none rm
    by (simp add: clickOnPoint_def pointEntityType_def handleClickingOnPointShape_def
        latestWalkerAddedEffect_def addToCollection_def Let_def)
qed

theorem click_on_empty_point_while_removal_pending_witness:
  "instructionsState (run removalPending initialGrid) = GridWalkerRemoval \<and>
   gridEditFocus (run removalPending initialGrid) = Some (cell 2 0) \<and>
   map onGridAt (gridWalkers (latestWalkerAddedEffect
      (clickOnPoint (run removalPending initialGrid) (cell 5 5) ''#00cc00''))) =
     [cell 0 0, cell 2 0, cell 5 5] \<and>
   gridEditFocus (latestWalkerAddedEffect
      (clickOnPoint (run removalPending initialGrid) (cell 5 5) ''#00cc00'')) = Some (cell 5 5) \<and>
   instructionsState (latestWalkerAddedEffect
      (clickOnPoint (run removalPending initialGrid) (cell 5 5) ''#00cc00'')) = GridWalkerRemoval"
proof -
  have a: "instructionsState (run removalPending initialGrid) = GridWalkerRemoval"
    "gridEditFocus (run removalPending initialGrid) = Some (cell 2 0)"
    "map onGridAt (gridWalkers (run removalPending initialGrid)) = [cell 0 0, cell 2 0]"
    by code_simp+
  have p: "cell 5 5 \<in> set pointsArray" by code_simp
  have f: "\<not> (\<exists>w \<in> set (gridWalkers (run removalPending initialGrid)). onGridAt w = cell 5 5)"
  proof -
    have "cell 5 5 \<notin> set (map onGridAt (gridWalkers (run removalPending initialGrid)))"
      unfolding a(3) by code_simp
    then show ?thesis by (auto simp: image_iff)
  qed
  from click_on_empty_point_while_removal_pending [OF a(1) p f, of "''#00cc00''"] a
  show ?thesis by simp
qed

section \<open>The completion of an animation\<close>

lemma renderEffect_frame [simp]:
  "instructionsState (renderEffect s) = instructionsState s"
  "stepping (renderEffect s) = stepping s"
  "latestWalkerAdded (renderEffect s) = latestWalkerAdded s"
  "gridWalkers (renderEffect s) = gridWalkers s"
  "gridStepsTakenSoFar (renderEffect s) = gridStepsTakenSoFar s"
  "walkersTakingNextStep (renderEffect s) = walkersTakingNextStep s"
  "gridEditFocus (renderEffect s) = gridEditFocus s"
  by (simp_all add: renderEffect_def Let_def)

lemma onComplete_frame [simp]:
  "instructionsState (onComplete s st now) = instructionsState s"
  "stepping (onComplete s st now) = stepping s"
  "latestWalkerAdded (onComplete s st now) = latestWalkerAdded s"
  "gridWalkers (onComplete s st now) = gridWalkers s"
  "walkersTakingNextStep (onComplete s st now) = walkersTakingNextStep s"
  "walkersFinishingSteps (onComplete s st now) = walkersFinishingSteps s"
  "gridEditFocus (onComplete s st now) = gridEditFocus s"
  "animationsInFlight (onComplete s st now) = animationsInFlight s"
  by (simp_all add: onComplete_def Let_def)

lemma foldl_queueAdd_if:
  "foldl (\<lambda>q x. if P x then queueAdd x q else q) q0 xs = q0 @ filter P xs"
  by (induction xs arbitrary: q0) (simp_all add: queueAdd_def)

lemma walkersFinishingSteps_renderEffect:
  "walkersFinishingSteps (renderEffect s) =
     walkersFinishingSteps s @
       filter (\<lambda>st. walkerStillAtFrom (gridWalkers s) st \<noteq> None \<and> stepping s)
         (filter (\<lambda>st. stepFinishedAnimatingAt st \<noteq> None) (gridStepsTakenSoFar s))"
  by (simp add: renderEffect_def Let_def foldl_queueAdd_if)

lemma completed_in_history:
  "st\<lparr>stepFinishedAnimatingAt := Some now\<rparr> \<in> set (gridStepsTakenSoFar (onComplete s st now))"
  by (simp add: onComplete_def Let_def addToCollection_def)

lemma walkerStillAtFrom_completed [simp]:
  "walkerStillAtFrom ws (st\<lparr>stepFinishedAnimatingAt := t\<rparr>) = walkerStillAtFrom ws st"
  by (simp add: walkerStillAtFrom_def)

text \<open>
  Claim C5, on the code as it is. The first walker has gone from (1,0) to (0,0) and its
  completed record is in the history. When the second walker's step from (0,0) to (1,0)
  completes, \<open>onComplete\<close> removes that step's own pending record and looks twice for a
  record with the same start and the same end; the record of the opposite direction,
  over the same pair of points, is still in the history when the new completed record is
  added.
\<close>

theorem reverse_record_survives_completion:
  "gridStepsTakenSoFar (run walkersSwapping initialGrid) =
     [pendingStep (cell 0 0) (cell 1 0) Right ''#0000bb'',
      completedStep (cell 1 0) (cell 0 0) Left ''#aa0000'' 1000] \<and>
   gridStepsTakenSoFar
     (run (walkersSwapping @
        [AnimationComplete (pendingStep (cell 0 0) (cell 1 0) Right ''#0000bb'') 1000])
        initialGrid) =
     [completedStep (cell 1 0) (cell 0 0) Left ''#aa0000'' 1000,
      completedStep (cell 0 0) (cell 1 0) Right ''#0000bb'' 1000]"
  by code_simp

text \<open>
  Claim C6, as the code has it. The completion of a tween changes the step history and
  nothing else: the registry, both queues, the instructions state, the walker being
  added, the edit focus and the stepping flag are as before. It always leaves the
  completed record in the history; on an empty history, as after a reset, the history
  then holds exactly that record. With an empty registry the render effect that follows
  queues nothing.
\<close>

theorem stale_completion_changes_history_only:
  "gridWalkers (onComplete s st now) = gridWalkers s \<and>
   walkersTakingNextStep (onComplete s st now) = walkersTakingNextStep s \<and>
   walkersFinishingSteps (onComplete s st now) = walkersFinishingSteps s \<and>
   instructionsState (onComplete s st now) = instructionsState s \<and>
   latestWalkerAdded (onComplete s st now) = latestWalkerAdded s \<and>
   gridEditFocus (onComplete s st now) = gridEditFocus s \<and>
   stepping (onComplete s st now) = stepping s \<and>
   st\<lparr>stepFinishedAnimatingAt := Some now\<rparr> \<in> set (gridStepsTakenSoFar (onComplete s st now)) \<and>
   (gridStepsTakenSoFar s = [] \<longrightarrow>
      gridStepsTakenSoFar (onComplete s st now) = [st\<lparr>stepFinishedAnimatingAt := Some now\<rparr>]) \<and>
   (gridWalkers s = [] \<longrightarrow>
      walkersFinishingSteps (renderEffect (onComplete s st now)) = walkersFinishingSteps s)"
  by (simp add: completed_in_history walkersFinishingSteps_renderEffect walkerStillAtFrom_def
      returnFirstOccurrenceIfFound_def)
     (simp add: onComplete_def Let_def addToCollection_def removeFromCollection_def)

theorem stale_completion_changes_history_only_witness:
  "gridStepsTakenSoFar (run resetWhileAnimating initialGrid) = [] \<and>
   gridWalkers (run resetWhileAnimating initialGrid) = [] \<and>
   gridWalkers (onComplete (run resetWhileAnimating initialGrid)
      (pendingStep (cell 0 0) (cell 1 0) Right ''#aa0000'') 1000) = [] \<and>
   gridStepsTakenSoFar (onComplete (run resetWhileAnimating initialGrid)
      (pendingStep (cell 0 0) (cell 1 0) Right ''#aa0000'') 1000) =
     [(pendingStep (cell 0 0) (cell 1 0) Right ''#aa0000'')\<lparr>stepFinishedAnimatingAt := Some 1000\<rparr>] \<and>
   walkersFinishingSteps (renderEffect (onComplete (run resetWhileAnimating initialGrid)
      (pendingStep (cell 0 0) (cell 1 0) Right ''#aa0000'') 1000)) = []"
proof -
  have a: "gridStepsTakenSoFar (run resetWhileAnimating initialGrid) = []"
    "gridWalkers (run resetWhileAnimating initialGrid) = []"
    "walkersFinishingSteps (run resetWhileAnimating initialGrid) = []"
    by code_simp+
  from a stale_completion_changes_history_only [of "run resetWhileAnimating initialGrid"
      "pendingStep (cell 0 0) (cell 1 0) Right ''#aa0000''" 1000]
  show ?thesis by simp
qed

text \<open>
  The claim as the specification states it fails: after a reset has emptied the registry
  and the history, the completion of a tween started before the reset puts a record
  into the history.
\<close>

theorem stale_completion_adds_record:
  "gridStepsTakenSoFar (run resetWhileAnimating initialGrid) = [] \<and>
   gridWalkers (run resetWhileAnimating initialGrid) = [] \<and>
   gridStepsTakenSoFar
     (run (resetWhileAnimating @
        [AnimationComplete (pendingStep (cell 0 0) (cell 1 0) Right ''#aa0000'') 1000])
        initialGrid) =
     [completedStep (cell 0 0) (cell 1 0) Right ''#aa0000'' 1000]"
  by code_simp






lemma walkerOn_eq [simp]: "walkerOn g c = walkerOn g' c' \<longleftrightarrow> g = g' \<and> c = c'"
  by (simp add: walkerOn_def)






section \<open>Step records are consistent\<close>

lemma arrayAt_Some_mem: "arrayAt xs i = Some x \<Longrightarrow> x \<in> set xs"
proof -
  assume a: "arrayAt xs i = Some x"
  then have b: "0 \<le> i" "i < int (length xs)" "x = xs ! nat i"
    by (auto simp: arrayAt_def split: if_splits)
  then have "nat i < length xs" by linarith
  with b(3) show ?thesis by simp
qed

lemma chooseNextStep_possible:
  "chooseNextStep stepsTaken g color random = Some ns \<Longrightarrow> ns \<in> set (possibleSteps g)"
  by (auto simp: chooseNextStep_def Let_def possibleNextSteps_def dest: arrayAt_Some_mem)

lemma walkerStep_consistent:
  assumes "walkerStep stepsTaken w random = Some st"
  shows "stepConsistent st"
proof -
  from assms obtain ns where c: "chooseNextStep stepsTaken (onGridAt w) (walkerColor w) random = Some ns"
    and st: "st = \<lparr>stepFrom = onGridAt w, stepTo = nextStep ns, stepDir = nextStepDir ns,
                   lineColor = walkerColor w, stepFinishedAnimatingAt = None\<rparr>"
    by (auto simp: walkerStep_def split: option.splits)
  from chooseNextStep_possible [OF c] show ?thesis
    unfolding st
    by (auto simp: possibleSteps_def Let_def stepConsistent_def bigIntSubtractionResult_def
        bigIntAdditionResult_def oneBigNumber_def)
qed

lemma set_removeFirstFound: "set (removeFirstFoundFromCollection p xs) \<subseteq> set xs"
  by (induction xs) auto

lemma set_removeFromCollection: "set (removeFromCollection x xs) \<subseteq> set xs"
  by (simp add: removeFromCollection_def set_removeFirstFound)

lemma takeNextSteps_history_consistent:
  "\<forall>st \<in> set (gridStepsTakenSoFar s). stepConsistent st \<Longrightarrow>
   \<forall>st \<in> set (gridStepsTakenSoFar (takeNextSteps h r i ws s)). stepConsistent st"
proof (induction ws arbitrary: s i)
  case Nil
  then show ?case by simp
next
  case (Cons w ws)
  let ?s' = "case walkerStep h w (r i) of
          Some walkerNextStep \<Rightarrow>
            s\<lparr>gridStepsTakenSoFar := addToCollection walkerNextStep (gridStepsTakenSoFar s)\<rparr>
        | None \<Rightarrow>
            s\<lparr>gridWalkers :=
                addToCollection (w\<lparr>finishedWalk := True\<rparr>)
                  (removeFromCollection w (gridWalkers s))\<rparr>"
  have "\<forall>st \<in> set (gridStepsTakenSoFar ?s'). stepConsistent st"
    using Cons.prems walkerStep_consistent [of h w "r i"]
    by (auto simp: addToCollection_def split: option.splits)
  from Cons.IH [OF this] show ?case by simp
qed

lemma stepConsistent_completed [simp]:
  "stepConsistent (st\<lparr>stepFinishedAnimatingAt := t\<rparr>) = stepConsistent st"
  by (cases "stepDir st") (simp_all add: stepConsistent_def)

lemma onComplete_history_subset:
  "set (gridStepsTakenSoFar (onComplete s st now)) \<subseteq>
     insert (st\<lparr>stepFinishedAnimatingAt := Some now\<rparr>) (set (gridStepsTakenSoFar s))"
proof -
  have "set (removeFirstFoundFromCollection p
          (removeFirstFoundFromCollection q (removeFromCollection st (gridStepsTakenSoFar s))))
        \<subseteq> set (gridStepsTakenSoFar s)" for p q
    by (meson set_removeFirstFound set_removeFromCollection subset_trans)
  then show ?thesis
    by (auto simp: onComplete_def Let_def addToCollection_def)
qed

lemma fire_recordsConsistent:
  assumes "recordsConsistent s"
  shows "recordsConsistent (fire e s)"
proof (cases e)
  case (ClickOnPoint p c)
  with assms show ?thesis
    by (auto simp: recordsConsistent_def clickOnPoint_def handleClickingOnPointShape_def Let_def
        split: option.splits)
next
  case (KeyDown k)
  with assms show ?thesis
    by (auto simp: recordsConsistent_def keyDownListener_def Let_def)
next
  case RenderEffect
  with assms show ?thesis
    by (auto simp: recordsConsistent_def walkersFinishingSteps_renderEffect)
       (auto simp: renderEffect_def Let_def)
next
  case LatestWalkerAddedEffect
  with assms show ?thesis
    by (auto simp: recordsConsistent_def latestWalkerAddedEffect_def split: option.splits)
next
  case (WalkersTakingNextStepEffect r)
  with assms takeNextSteps_history_consistent [of s "gridStepsTakenSoFar s" r 0 "walkersTakingNextStep s"]
  show ?thesis
    by (auto simp: recordsConsistent_def walkersTakingNextStepEffect_def)
next
  case WalkersFinishingStepsEffect
  with assms show ?thesis
    by (auto simp: recordsConsistent_def walkersFinishingStepsEffect_def)
next
  case (AnimationComplete st now)
  show ?thesis
  proof (cases "st \<in> set (animationsInFlight s)")
    case False
    with assms AnimationComplete show ?thesis by simp
  next
    case True
    let ?s' = "s\<lparr>animationsInFlight := remove1 st (animationsInFlight s)\<rparr>"
    have c: "stepConsistent st" using assms True by (simp add: recordsConsistent_def)
    have "\<forall>x \<in> set (gridStepsTakenSoFar (onComplete ?s' st now)). stepConsistent x"
      using onComplete_history_subset [of ?s' st now] assms c
      by (auto simp: recordsConsistent_def)
    moreover have "\<forall>x \<in> set (remove1 st (animationsInFlight s)). stepConsistent x"
      using assms set_remove1_subset [of st "animationsInFlight s"]
      by (auto simp: recordsConsistent_def)
    ultimately show ?thesis
      using assms AnimationComplete True by (auto simp: recordsConsistent_def)
  qed
qed

lemma run_recordsConsistent:
  "recordsConsistent s \<Longrightarrow> recordsConsistent (run es s)"
  unfolding run_def by (induction es arbitrary: s) (simp_all add: fire_recordsConsistent)

text \<open>
  Claim C8. Every step record the code creates is consistent: the record \<open>walkerStep\<close>
  builds from the chosen candidate is, whatever the history, the walker and the random
  draw; and in every state the demo can reach, all records of the step history, of the
  queue of finishing steps and of the tweens in flight are, the completed copies that
  \<open>onComplete\<close> adds included.
\<close>

theorem step_records_consistent:
  "(walkerStep stepsTaken w random = Some st \<longrightarrow> stepConsistent st) \<and>
   recordsConsistent (run es initialGrid)"
proof
  show "walkerStep stepsTaken w random = Some st \<longrightarrow> stepConsistent st"
    using walkerStep_consistent by blast
  show "recordsConsistent (run es initialGrid)"
    by (rule run_recordsConsistent) (simp add: recordsConsistent_def initialGrid_def)
qed

theorem step_records_consistent_witness:
  "walkerStep [] (walkerOn (cell 0 0) ''#aa0000'') 0 =
     Some (pendingStep (cell 0 0) (cell 1 0) Right ''#aa0000'') \<and>
   stepConsistent (pendingStep (cell 0 0) (cell 1 0) Right ''#aa0000'') \<and>
   gridStepsTakenSoFar (run walkStarted initialGrid) =
     [pendingStep (cell 0 0) (cell 1 0) Right ''#aa0000'',
      pendingStep (cell 2 0) (cell 1 0) Left ''#0000bb''] \<and>
   stepConsistent (pendingStep (cell 2 0) (cell 1 0) Left ''#0000bb'')"
proof -
  have a: "walkerStep [] (walkerOn (cell 0 0) ''#aa0000'') 0 =
     Some (pendingStep (cell 0 0) (cell 1 0) Right ''#aa0000'')"
    by code_simp
  have b: "gridStepsTakenSoFar (run walkStarted initialGrid) =
     [pendingStep (cell 0 0) (cell 1 0) Right ''#aa0000'',
      pendingStep (cell 2 0) (cell 1 0) Left ''#0000bb'']"
    by code_simp
  from step_records_consistent [of "[]" "walkerOn (cell 0 0) ''#aa0000''" 0
      "pendingStep (cell 0 0) (cell 1 0) Right ''#aa0000''" walkStarted] a b
  show ?thesis by (simp add: recordsConsistent_def)
qed

section \<open>Occupancy of the grid points\<close>

lemma distinct_map_removeFirstFound:
  "distinct (map f xs) \<Longrightarrow> distinct (map f (removeFirstFoundFromCollection p xs))"
proof (induction xs)
  case Nil
  then show ?case by simp
next
  case (Cons x xs)
  then show ?case
    using set_removeFirstFound [of p xs] by auto
qed

lemma removeFirstFound_clears_cell:
  "distinct (map onGridAt xs) \<Longrightarrow>
   g \<notin> onGridAt ` set (removeFirstFoundFromCollection (walkerAt g) xs)"
proof (induction xs)
  case Nil
  then show ?case by simp
next
  case (Cons x xs)
  then show ?case by (auto simp: walkerAt_iff image_iff)
qed

lemma fire_editingBeforeStart:
  assumes "editingBeforeStart s" "\<not> isStartKey e"
  shows "editingBeforeStart (fire e s)"
proof (cases e)
  case (ClickOnPoint p c)
  with assms(1) show ?thesis
    by (auto simp: editingBeforeStart_def atMostOneWalkerPerCell_def clickOnPoint_def
        handleClickingOnPointShape_def Let_def distinct_map_removeFirstFound
        split: option.splits)
next
  case (KeyDown k)
  with assms show ?thesis
    by (auto simp: editingBeforeStart_def atMostOneWalkerPerCell_def keyDownListener_def Let_def)
next
  case RenderEffect
  with assms(1) show ?thesis
    by (auto simp: editingBeforeStart_def atMostOneWalkerPerCell_def
        walkersFinishingSteps_renderEffect)
       (auto simp: renderEffect_def Let_def)
next
  case LatestWalkerAddedEffect
  with assms(1) show ?thesis
    using removeFirstFound_clears_cell [of "gridWalkers s"]
    by (auto simp: editingBeforeStart_def atMostOneWalkerPerCell_def latestWalkerAddedEffect_def
        addToCollection_def distinct_map_removeFirstFound split: option.splits)
next
  case (WalkersTakingNextStepEffect r)
  with assms(1) show ?thesis
    by (auto simp: editingBeforeStart_def walkersTakingNextStepEffect_def)
next
  case WalkersFinishingStepsEffect
  with assms(1) show ?thesis
    by (auto simp: editingBeforeStart_def walkersFinishingStepsEffect_def)
next
  case (AnimationComplete st now)
  with assms(1) show ?thesis
    by (auto simp: editingBeforeStart_def)
qed

lemma run_editingBeforeStart:
  "editingBeforeStart s \<Longrightarrow> \<forall>e \<in> set es. \<not> isStartKey e \<Longrightarrow> editingBeforeStart (run es s)"
  unfolding run_def by (induction es arbitrary: s) (simp_all add: fire_editingBeforeStart)

text \<open>
  Claim C4, as the code has it. In every state reached from the initial state by events
  among which the start key does not occur, no two walkers of the registry are on the
  same grid point: the effect that adds a walker first removes the walker already at
  its point.
\<close>

theorem one_walker_per_cell_before_start:
  assumes "\<forall>e \<in> set es. \<not> isStartKey e"
  shows "atMostOneWalkerPerCell (run es initialGrid)"
proof -
  have "editingBeforeStart initialGrid"
    by (simp add: editingBeforeStart_def atMostOneWalkerPerCell_def initialGrid_def)
  from run_editingBeforeStart [OF this assms] show ?thesis
    by (simp add: editingBeforeStart_def)
qed

theorem one_walker_per_cell_before_start_witness:
  "map onGridAt (gridWalkers (run (twoWalkersPlaced @
      [ClickOnPoint (cell 2 0) ''#00cc00'', RenderEffect, KeyDown ''Escape'', RenderEffect])
      initialGrid)) = [cell 0 0, cell 2 0] \<and>
   atMostOneWalkerPerCell (run (twoWalkersPlaced @
      [ClickOnPoint (cell 2 0) ''#00cc00'', RenderEffect, KeyDown ''Escape'', RenderEffect])
      initialGrid)"
proof -
  let ?es = "twoWalkersPlaced @
      [ClickOnPoint (cell 2 0) ''#00cc00'', RenderEffect, KeyDown ''Escape'', RenderEffect]"
  have a: "\<forall>e \<in> set ?es. \<not> isStartKey e"
    by (simp add: twoWalkersPlaced_def)
  have b: "map onGridAt (gridWalkers (run ?es initialGrid)) = [cell 0 0, cell 2 0]"
    by code_simp
  from one_walker_per_cell_before_start [OF a] b show ?thesis by simp
qed

text \<open>
  The claim as the specification states it, for every reachable state, fails during a
  run: the walkers placed at (0,0) and (2,0) both step to (1,0).
\<close>

theorem two_walkers_on_one_cell:
  "map onGridAt (gridWalkers (run firstStepsFinished initialGrid)) = [cell 1 0, cell 1 0] \<and>
   \<not> atMostOneWalkerPerCell (run firstStepsFinished initialGrid)"
proof -
  have b: "map onGridAt (gridWalkers (run firstStepsFinished initialGrid)) = [cell 1 0, cell 1 0]"
    by code_simp
  then show ?thesis by (simp add: atMostOneWalkerPerCell_def)
qed

section \<open>A finished walker stays where it is\<close>








subsection \<open>No finished walker is queued\<close>


lemma walkerColors_simps [simp]:
  "walkerColors [] = {}"
  "walkerColors (w # ws) = insert (walkerColor w) (walkerColors ws)"
  "walkerColors (ws @ vs) = walkerColors ws \<union> walkerColors vs"
  by (auto simp: walkerColors_def)

lemma stepColors_simps [simp]:
  "stepColors [] = {}"
  "stepColors (x # xs) = insert (lineColor x) (stepColors xs)"
  "stepColors (xs @ ys) = stepColors xs \<union> stepColors ys"
  by (auto simp: stepColors_def)
































end
